theory Spec2Isabelle
  imports
    Main
    "HOL-Library.Multiset"
    "HOL-Library.Char_ord"
    "HOL-Library.List_Lexorder"
    "HOL-Library.Option_ord"
begin

section \<open>The sync engine of the offline-first task manager\<close>

text \<open>
  The development embeds \<open>SyncService\<close> (the sync cycle, its retry accounting, the
  last-write-wins resolution, the outbox) and the two operations of \<open>TaskService\<close>
  that the cycle calls (\<open>getTask\<close>, \<open>updateLocalOnly\<close>).

  The SQLite store is a record of three tables, each a list of rows in insertion order.
  A statement \<open>UPDATE t SET ... WHERE id = ?\<close> rewrites every row that matches,
  \<open>DELETE\<close> filters them out, \<open>INSERT\<close> appends. Storage calls are taken to
  succeed. What the platform supplies (the HTTP client, the clock, the UUID generator, the
  two date parsers, the two configured numbers) is a record of parameters.
\<close>

subsection \<open>Data model\<close>

datatype operation = Create | Update | Delete

datatype sync_status = Pending | Synced | Error

text \<open>
  JSON values. A text column holding JSON is identified with the value it spells:
  \<open>JSON.stringify\<close> builds \<open>JSON_text\<close>, \<open>JSON.parse\<close> reads it back, and fails
  on any other text.
\<close>

datatype json =
    JNull
  | JBool bool
  | JNumber int
  | JString string
  | JArray "json list"
  | JObject "(string \<times> json) list"

datatype column_text = JSON_text json | Other_text string

definition JSON_stringify :: "json \<Rightarrow> column_text" where
  "JSON_stringify j = JSON_text j"

fun JSON_parse :: "column_text \<Rightarrow> json option" where
  "JSON_parse (JSON_text j) = Some j"
| "JSON_parse (Other_text s) = None"

text \<open>
  A row of \<open>tasks\<close>, which is also the \<open>Task\<close> that \<open>getTask\<close> hands out
  (the two integer flags read as booleans). Timestamps are the stored texts.
\<close>

record Task =
  id_t :: string
  title :: string
  description :: string
  completed :: bool
  created_at :: string
  updated_at :: string
  is_deleted :: bool
  sync_status :: sync_status
  server_id :: "string option"
  last_synced_at :: "string option"

text \<open>
  \<open>Partial<Task>\<close>, restricted to the fields that the service reads from server data:
  a field is absent (\<open>None\<close>) or holds a value of its declared type.
\<close>

record partial_task =
  server_id_p :: "string option"
  updated_at_p :: "string option"
  title_p :: "string option"
  description_p :: "string option"
  completed_p :: "bool option"
  is_deleted_p :: "bool option"

definition no_fields :: partial_task where
  "no_fields = \<lparr>server_id_p = None, updated_at_p = None, title_p = None,
     description_p = None, completed_p = None, is_deleted_p = None\<rparr>"

text \<open>
  Modelled from the spec: the columns of \<open>sync_queue\<close> (the schema is not among the
  sources). \<open>retry_count\<close> is nullable in the queries (\<open>IFNULL\<close>, \<open>??\<close>). An item
  of a cycle is the row as it was fetched; the two columns that the \<open>SELECT\<close> leaves
  out are never read from an item.
\<close>

record SyncQueueItem =
  id_q :: string
  task_id :: string
  operation :: operation
  data :: column_text
  created_at_q :: string
  retry_count :: "int option"
  last_error :: "string option"
  updated_at_q :: "string option"

record sync_error =
  task_id_e :: string
  operation_e :: operation
  error_e :: string
  timestamp_e :: string

record SyncResult =
  success :: bool
  synced_items :: nat
  failed_items :: nat
  errors :: "sync_error list"

record batch_item =
  id_b :: string
  task_id_b :: string
  operation_b :: operation
  data_b :: json
  created_at_b :: string
  retry_count_b :: int

record BatchSyncRequest =
  items_b :: "batch_item list"
  client_timestamp :: string

text \<open>
  Modelled from the spec: a processed item of the response carries \<open>client_id\<close>, a
  status, and optionally \<open>resolved_data\<close>, \<open>server_id\<close> and \<open>error\<close>.
\<close>

record processed_item =
  client_id :: string
  status :: string
  server_id_r :: "string option"
  resolved_data :: "partial_task option"
  error_r :: "string option"

record BatchSyncResponse =
  processed_items :: "processed_item list option"

text \<open>
  The platform. \<open>MAX_RETRY\<close> and \<open>SYNC_BATCH_SIZE\<close> are the two configured numbers.
  \<open>axios_get_health\<close> tells whether the health request succeeds; \<open>axios_post_batch\<close>
  is \<open>None\<close> when the request raises. \<open>Date_now n\<close> is what the \<open>n\<close>-th reading of
  the clock prints, \<open>CURRENT_TIMESTAMP n\<close> what SQLite's clock prints there.
  \<open>Date_getTime\<close> is \<open>new Date(text).getTime()\<close>, \<open>None\<close> for NaN;
  \<open>sqlite_datetime\<close> is SQLite's \<open>datetime()\<close>, \<open>None\<close> for NULL.
\<close>

record env =
  MAX_RETRY :: int
  SYNC_BATCH_SIZE :: int
  axios_get_health :: bool
  axios_post_batch :: "BatchSyncRequest \<Rightarrow> BatchSyncResponse option"
  Date_now :: "nat \<Rightarrow> string"
  CURRENT_TIMESTAMP :: "nat \<Rightarrow> string"
  Date_getTime :: "string \<Rightarrow> int option"
  sqlite_datetime :: "string \<Rightarrow> string option"
  uuidv4 :: "nat \<Rightarrow> string"

text \<open>
  The store, with the number of clock readings and of identifiers drawn so far.
\<close>

record world =
  tasks :: "Task list"
  sync_queue :: "SyncQueueItem list"
  meta :: "(string \<times> string) list"
  ticks :: nat
  uuids :: nat

definition now :: "env \<Rightarrow> world \<Rightarrow> string" where
  "now e w = Date_now e (ticks w)"

definition tick :: "world \<Rightarrow> world" where
  "tick w = w\<lparr>ticks := Suc (ticks w)\<rparr>"

subsection \<open>TaskService\<close>

text \<open>\<open>SELECT * FROM tasks WHERE id = ? AND is_deleted = 0\<close>, first row or null.\<close>

definition getTask :: "string \<Rightarrow> world \<Rightarrow> Task option" where
  "getTask i w = List.find (\<lambda>t. id_t t = i \<and> \<not> is_deleted t) (tasks w)"

definition set_field :: "'a option \<Rightarrow> ('a \<Rightarrow> 'r \<Rightarrow> 'r) \<Rightarrow> 'r \<Rightarrow> 'r" where
  "set_field v upd r = (case v of None \<Rightarrow> r | Some x \<Rightarrow> upd x r)"

text \<open>
  \<open>updateLocalOnly\<close>: one \<open>SET\<close> clause for each field that is not undefined, no
  statement at all when there is none.
\<close>

definition local_fields :: "partial_task \<Rightarrow> Task \<Rightarrow> Task" where
  "local_fields u t =
     set_field (server_id_p u) (\<lambda>x r. r\<lparr>server_id := Some x\<rparr>)
      (set_field (is_deleted_p u) (\<lambda>x r. r\<lparr>is_deleted := x\<rparr>)
       (set_field (updated_at_p u) (\<lambda>x r. r\<lparr>updated_at := x\<rparr>)
        (set_field (completed_p u) (\<lambda>x r. r\<lparr>completed := x\<rparr>)
         (set_field (description_p u) (\<lambda>x r. r\<lparr>description := x\<rparr>)
          (set_field (title_p u) (\<lambda>x r. r\<lparr>title := x\<rparr>) t)))))"

definition updateLocalOnly :: "string \<Rightarrow> partial_task \<Rightarrow> world \<Rightarrow> world" where
  "updateLocalOnly taskId u w =
     w\<lparr>tasks := map (\<lambda>t. if id_t t = taskId then local_fields u t else t) (tasks w)\<rparr>"

subsection \<open>SyncService: the leaf operations\<close>

definition checkConnectivity :: "env \<Rightarrow> bool" where
  "checkConnectivity e = axios_get_health e"

definition ifnull :: "int option \<Rightarrow> int \<Rightarrow> int" where
  "ifnull v d = (case v of None \<Rightarrow> d | Some n \<Rightarrow> n)"

text \<open>
  \<open>updateSyncStatus\<close>: \<open>sync_status\<close> and \<open>last_synced_at\<close> always, then each
  server field that is present.
\<close>

definition status_fields :: "sync_status \<Rightarrow> string \<Rightarrow> partial_task option \<Rightarrow> Task \<Rightarrow> Task" where
  "status_fields st n serverData t =
     (let t1 = t\<lparr>sync_status := st, last_synced_at := Some n\<rparr>
      in case serverData of
           None \<Rightarrow> t1
         | Some d \<Rightarrow>
             set_field (is_deleted_p d) (\<lambda>x r. r\<lparr>is_deleted := x\<rparr>)
              (set_field (completed_p d) (\<lambda>x r. r\<lparr>completed := x\<rparr>)
               (set_field (description_p d) (\<lambda>x r. r\<lparr>description := x\<rparr>)
                (set_field (title_p d) (\<lambda>x r. r\<lparr>title := x\<rparr>)
                 (set_field (updated_at_p d) (\<lambda>x r. r\<lparr>updated_at := x\<rparr>)
                  (set_field (server_id_p d) (\<lambda>x r. r\<lparr>server_id := Some x\<rparr>) t1))))))"

definition updateSyncStatus ::
  "env \<Rightarrow> string \<Rightarrow> sync_status \<Rightarrow> partial_task option \<Rightarrow> world \<Rightarrow> world" where
  "updateSyncStatus e taskId st serverData w =
     tick (w\<lparr>tasks :=
       map (\<lambda>t. if id_t t = taskId then status_fields st (now e w) serverData t else t)
         (tasks w)\<rparr>)"

text \<open>
  \<open>handleSyncError\<close>: the retry count written is the one of the item in hand plus one.
\<close>

definition nextRetry :: "SyncQueueItem \<Rightarrow> int" where
  "nextRetry item = ifnull (retry_count item) 0 + 1"

definition record_error :: "SyncQueueItem \<Rightarrow> string \<Rightarrow> string \<Rightarrow> SyncQueueItem \<Rightarrow> SyncQueueItem" where
  "record_error item msg n r =
     (if id_q r = id_q item
      then r\<lparr>retry_count := Some (nextRetry item), last_error := Some msg,
             updated_at_q := Some n\<rparr>
      else r)"

definition handleSyncError :: "env \<Rightarrow> SyncQueueItem \<Rightarrow> string \<Rightarrow> world \<Rightarrow> world" where
  "handleSyncError e item msg w =
     (let w1 = tick (w\<lparr>sync_queue := map (record_error item msg (now e w)) (sync_queue w)\<rparr>)
      in if nextRetry item \<ge> MAX_RETRY e
         then updateSyncStatus e (task_id item) Error None w1
         else w1)"

definition removeQueueItem :: "string \<Rightarrow> world \<Rightarrow> world" where
  "removeQueueItem queueItemId w =
     w\<lparr>sync_queue := filter (\<lambda>r. id_q r \<noteq> queueItemId) (sync_queue w)\<rparr>"

text \<open>
  \<open>getQueueItemsToProcess\<close>. Rows with equal keys keep their insertion order; NULL
  keys come first, texts compare byte by byte.
\<close>

definition getQueueItemsToProcess :: "env \<Rightarrow> world \<Rightarrow> SyncQueueItem list" where
  "getQueueItemsToProcess e w =
     sort_key (\<lambda>r. sqlite_datetime e (created_at_q r))
       (filter (\<lambda>r. ifnull (retry_count r) 0 < MAX_RETRY e) (sync_queue w))"

function chunk_from :: "'a list \<Rightarrow> nat \<Rightarrow> nat \<Rightarrow> 'a list list" where
  "chunk_from arr sz i =
     (if 0 < sz \<and> i < length arr
      then take sz (drop i arr) # chunk_from arr sz (i + sz)
      else [])"
  by pat_completeness auto
termination
  by (relation "measure (\<lambda>(arr, sz, i). length arr - i)") auto

declare chunk_from.simps [simp del]

definition chunk :: "'a list \<Rightarrow> int \<Rightarrow> 'a list list" where
  "chunk arr sz = (if sz \<le> 0 then [arr] else chunk_from arr (nat sz) 0)"

definition safeParseData :: "column_text \<Rightarrow> json" where
  "safeParseData raw =
     (if raw = Other_text [] then JObject []
      else case JSON_parse raw of Some j \<Rightarrow> j | None \<Rightarrow> JObject [])"

text \<open>
  Modelled from the spec: a new row of \<open>sync_queue\<close> starts with \<open>retry_count\<close> 0,
  no error, and SQLite's current time as \<open>created_at\<close>.
\<close>

definition addToSyncQueue :: "env \<Rightarrow> string \<Rightarrow> operation \<Rightarrow> json \<Rightarrow> world \<Rightarrow> world" where
  "addToSyncQueue e taskId op snapshot w =
     w\<lparr>sync_queue := sync_queue w @
          [\<lparr>id_q = uuidv4 e (uuids w), task_id = taskId, operation = op,
            data = JSON_stringify (JObject [(''data'', snapshot)]),
            created_at_q = CURRENT_TIMESTAMP e (ticks w), retry_count = Some 0,
            last_error = None, updated_at_q = None\<rparr>],
        uuids := Suc (uuids w),
        ticks := Suc (ticks w)\<rparr>"

subsection \<open>Last-write-wins\<close>

text \<open>
  \<open>resolveConflict\<close> returns one of its two arguments; the result says which, as the
  caller's test \<open>winner === local\<close> does on two distinct objects. A comparison with NaN
  is false. The log line prints both timestamps with \<open>toISOString\<close>, which throws a
  RangeError on an invalid date.
\<close>

datatype winner = LocalTask Task | ServerTask partial_task

definition js_ge :: "int option \<Rightarrow> int option \<Rightarrow> bool" where
  "js_ge a b = (case (a, b) of (Some x, Some y) \<Rightarrow> x \<ge> y | _ \<Rightarrow> False)"

definition getTime_p :: "env \<Rightarrow> string option \<Rightarrow> int option" where
  "getTime_p e v = (case v of None \<Rightarrow> None | Some t \<Rightarrow> Date_getTime e t)"

definition resolveConflict :: "env \<Rightarrow> Task \<Rightarrow> partial_task \<Rightarrow> string + winner" where
  "resolveConflict e localTask serverTask =
     (let localUpdated = Date_getTime e (updated_at localTask);
          serverUpdated = getTime_p e (updated_at_p serverTask);
          w = (if js_ge localUpdated serverUpdated
               then LocalTask localTask else ServerTask serverTask)
      in if localUpdated = None \<or> serverUpdated = None
         then Inl ''Invalid time value''
         else Inr w)"

subsection \<open>One batch\<close>

definition to_batch_item :: "SyncQueueItem \<Rightarrow> batch_item" where
  "to_batch_item it =
     \<lparr>id_b = id_q it, task_id_b = task_id it, operation_b = operation it,
      data_b = safeParseData (data it), created_at_b = created_at_q it,
      retry_count_b = ifnull (retry_count it) 0\<rparr>"

definition payload :: "env \<Rightarrow> SyncQueueItem list \<Rightarrow> world \<Rightarrow> BatchSyncRequest" where
  "payload e its w = \<lparr>items_b = map to_batch_item its, client_timestamp = now e w\<rparr>"

text \<open>\<open>processBatch\<close>: whatever the request raises is rethrown under one message.\<close>

definition processBatch ::
  "env \<Rightarrow> SyncQueueItem list \<Rightarrow> world \<Rightarrow> (string + BatchSyncResponse) \<times> world" where
  "processBatch e its w =
     (case axios_post_batch e (payload e its w) of
        None \<Rightarrow> (Inl ''Faield to process batch'', tick w)
      | Some resp \<Rightarrow> (Inr resp, tick w))"

text \<open>\<open>byClientId\<close>: a later item of the batch overrides an earlier one with its id.\<close>

definition byClientId :: "SyncQueueItem list \<Rightarrow> string \<Rightarrow> SyncQueueItem option" where
  "byClientId batch = map_of (rev (map (\<lambda>it. (id_q it, it)) batch))"

definition or_default :: "string option \<Rightarrow> string \<Rightarrow> string" where
  "or_default v d = (case v of None \<Rightarrow> d | Some s \<Rightarrow> if s = [] then d else s)"

definition push_error ::
  "env \<Rightarrow> string \<Rightarrow> operation \<Rightarrow> string \<Rightarrow> world \<times> SyncResult \<Rightarrow> world \<times> SyncResult" where
  "push_error e tid op msg c =
     (case c of (w, r) \<Rightarrow>
        (tick w,
         r\<lparr>errors := errors r @
             [\<lparr>task_id_e = tid, operation_e = op, error_e = msg, timestamp_e = now e w\<rparr>]\<rparr>))"

definition count_failed :: "SyncResult \<Rightarrow> SyncResult" where
  "count_failed r = r\<lparr>failed_items := failed_items r + 1\<rparr>"

definition count_synced :: "SyncResult \<Rightarrow> SyncResult" where
  "count_synced r = r\<lparr>synced_items := synced_items r + 1\<rparr>"

text \<open>The best-effort write of \<open>last_sync_timestamp\<close>; a failure is swallowed.\<close>

definition mark_last_sync :: "env \<Rightarrow> world \<Rightarrow> world" where
  "mark_last_sync e w =
     tick (w\<lparr>meta := map (\<lambda>(k, v). if k = ''last_sync_timestamp'' then (k, now e w) else (k, v))
                     (meta w)\<rparr>)"

definition local_snapshot :: "Task \<Rightarrow> json" where
  "local_snapshot t =
     JObject [(''title'', JString (title t)), (''description'', JString (description t)),
              (''completed'', JBool (completed t)), (''updated_at'', JString (updated_at t)),
              (''is_deleted'', JBool (is_deleted t))]"

text \<open>The four outcomes for one processed item that has a queue item.\<close>

definition on_success ::
  "env \<Rightarrow> SyncQueueItem \<Rightarrow> processed_item \<Rightarrow> world \<times> SyncResult \<Rightarrow> world \<times> SyncResult" where
  "on_success e queueItem p c =
     (case c of (w, r) \<Rightarrow>
        (let serverData = (case resolved_data p of None \<Rightarrow> no_fields | Some d \<Rightarrow> d)
                            \<lparr>server_id_p := server_id_r p\<rparr>;
             w1 = updateSyncStatus e (task_id queueItem) Synced (Some serverData) w;
             w2 = removeQueueItem (id_q queueItem) w1
         in (w2, count_synced r)))"

definition on_missing_data ::
  "env \<Rightarrow> SyncQueueItem \<Rightarrow> world \<times> SyncResult \<Rightarrow> world \<times> SyncResult" where
  "on_missing_data e queueItem c =
     (case c of (w, r) \<Rightarrow>
        push_error e (task_id queueItem) (operation queueItem)
          ''Conflict: missing data to resolve''
          (handleSyncError e queueItem ''Conflict but missing data'' w, count_failed r))"

definition on_local_wins ::
  "env \<Rightarrow> SyncQueueItem \<Rightarrow> Task \<Rightarrow> world \<times> SyncResult \<Rightarrow> world \<times> SyncResult" where
  "on_local_wins e queueItem local c =
     (case c of (w, r) \<Rightarrow>
        (let w1 = handleSyncError e queueItem ''Conflict: local newer, requeueing update'' w;
             w2 = addToSyncQueue e (id_t local) Update (local_snapshot local) w1
         in push_error e (task_id queueItem) Update
              ''Conflict resolved (local newer). Requeued update.'' (w2, count_failed r)))"

definition on_server_wins ::
  "env \<Rightarrow> SyncQueueItem \<Rightarrow> partial_task \<Rightarrow> world \<times> SyncResult \<Rightarrow> world \<times> SyncResult" where
  "on_server_wins e queueItem serverTask c =
     (case c of (w, r) \<Rightarrow>
        (let w1 = updateLocalOnly (task_id queueItem)
                    (serverTask\<lparr>is_deleted_p :=
                       Some (case is_deleted_p serverTask of None \<Rightarrow> False | Some b \<Rightarrow> b)\<rparr>) w;
             w2 = updateSyncStatus e (task_id queueItem) Synced (Some serverTask) w1;
             w3 = removeQueueItem (id_q queueItem) w2;
             (w4, r4) = push_error e (task_id queueItem) (operation queueItem)
                          ''Conflict resolved using last-write-wins (server newer)'' (w3, r)
         in (w4, count_synced r4)))"

definition on_server_error ::
  "env \<Rightarrow> SyncQueueItem \<Rightarrow> processed_item \<Rightarrow> world \<times> SyncResult \<Rightarrow> world \<times> SyncResult" where
  "on_server_error e queueItem p c =
     (case c of (w, r) \<Rightarrow>
        push_error e (task_id queueItem) (operation queueItem)
          (or_default (error_r p) ''Server error'')
          (handleSyncError e queueItem (or_default (error_r p) ''Server error'') w,
           count_failed r))"

definition finish_item :: "env \<Rightarrow> world \<times> SyncResult \<Rightarrow> world \<times> SyncResult" where
  "finish_item e c = (case c of (w, r) \<Rightarrow> (mark_last_sync e w, r))"

text \<open>
  The body of the loop over \<open>processed_items\<close>. \<open>Inl\<close> is an exception, with the
  state in which it was raised; the missing-data branch leaves by \<open>continue\<close>, before
  the write of \<open>last_sync_timestamp\<close>.
\<close>

definition process_item ::
  "env \<Rightarrow> SyncQueueItem list \<Rightarrow> processed_item \<Rightarrow> world \<times> SyncResult
     \<Rightarrow> (string \<times> world \<times> SyncResult) + (world \<times> SyncResult)" where
  "process_item e batch p c =
     (case byClientId batch (client_id p) of
        None \<Rightarrow> Inr c
      | Some queueItem \<Rightarrow>
          if status p = ''success'' then Inr (finish_item e (on_success e queueItem p c))
          else if status p = ''conflict'' then
            (case (getTask (task_id queueItem) (fst c), resolved_data p) of
               (Some local, Some serverTask) \<Rightarrow>
                 (case resolveConflict e local serverTask of
                    Inl msg \<Rightarrow> Inl (msg, c)
                  | Inr (LocalTask l) \<Rightarrow> Inr (finish_item e (on_local_wins e queueItem l c))
                  | Inr (ServerTask s) \<Rightarrow> Inr (finish_item e (on_server_wins e queueItem s c)))
             | _ \<Rightarrow> Inr (on_missing_data e queueItem c))
          else Inr (finish_item e (on_server_error e queueItem p c)))"

fun process_items ::
  "env \<Rightarrow> SyncQueueItem list \<Rightarrow> processed_item list \<Rightarrow> world \<times> SyncResult
     \<Rightarrow> (string \<times> world \<times> SyncResult) + (world \<times> SyncResult)" where
  "process_items e batch [] c = Inr c"
| "process_items e batch (p # ps) c =
     (case process_item e batch p c of
        Inl x \<Rightarrow> Inl x
      | Inr c' \<Rightarrow> process_items e batch ps c')"

text \<open>Items of the batch that the response does not mention.\<close>

definition fail_item ::
  "env \<Rightarrow> string \<Rightarrow> string \<Rightarrow> SyncQueueItem \<Rightarrow> world \<times> SyncResult \<Rightarrow> world \<times> SyncResult" where
  "fail_item e msg shown it c =
     (case c of (w, r) \<Rightarrow>
        push_error e (task_id it) (operation it) shown
          (handleSyncError e it msg w, count_failed r))"

definition unreturned ::
  "env \<Rightarrow> processed_item list \<Rightarrow> SyncQueueItem list \<Rightarrow> world \<times> SyncResult
     \<Rightarrow> world \<times> SyncResult" where
  "unreturned e ps batch c =
     fold (\<lambda>it c. if id_q it \<in> set (map client_id ps) then c
                   else fail_item e ''No server response for item''
                          ''No server response for item'' it c)
       batch c"

text \<open>The \<open>try\<close> block and the \<open>catch\<close> block of one batch.\<close>

definition try_batch ::
  "env \<Rightarrow> SyncQueueItem list \<Rightarrow> world \<times> SyncResult
     \<Rightarrow> (string \<times> world \<times> SyncResult) + (world \<times> SyncResult)" where
  "try_batch e batch c =
     (case c of (w, r) \<Rightarrow>
        (case processBatch e batch w of
           (Inl msg, w1) \<Rightarrow> Inl (msg, w1, r)
         | (Inr resp, w1) \<Rightarrow>
             (let ps = (case processed_items resp of None \<Rightarrow> [] | Some l \<Rightarrow> l)
              in case process_items e batch ps (w1, r) of
                   Inl x \<Rightarrow> Inl x
                 | Inr c' \<Rightarrow> Inr (unreturned e ps batch c'))))"

definition catch_batch ::
  "env \<Rightarrow> SyncQueueItem list \<Rightarrow> string \<Rightarrow> world \<times> SyncResult \<Rightarrow> world \<times> SyncResult" where
  "catch_batch e batch msg c =
     (case fold (fail_item e msg (if msg = [] then ''Batch failed'' else msg)) batch c of
        (w, r) \<Rightarrow> (w, r\<lparr>success := False\<rparr>))"

definition sync_batch ::
  "env \<Rightarrow> SyncQueueItem list \<Rightarrow> world \<times> SyncResult \<Rightarrow> world \<times> SyncResult" where
  "sync_batch e batch c =
     (case try_batch e batch c of
        Inl (msg, c') \<Rightarrow> catch_batch e batch msg c'
      | Inr c' \<Rightarrow> c')"

subsection \<open>The cycle\<close>

fun sync_batches ::
  "env \<Rightarrow> SyncQueueItem list list \<Rightarrow> world \<times> SyncResult \<Rightarrow> world \<times> SyncResult" where
  "sync_batches e [] c = c"
| "sync_batches e (batch # batches) c = sync_batches e batches (sync_batch e batch c)"

definition result0 :: SyncResult where
  "result0 = \<lparr>success = True, synced_items = 0, failed_items = 0, errors = []\<rparr>"

definition sync :: "env \<Rightarrow> world \<Rightarrow> world \<times> SyncResult" where
  "sync e w =
     (if \<not> checkConnectivity e then (w, result0\<lparr>success := False\<rparr>)
      else
        (let items = getQueueItemsToProcess e w
         in if length items = 0 then (w, result0)
            else sync_batches e (chunk items (SYNC_BATCH_SIZE e)) (w, result0)))"

subsection \<open>A small installation, for the concrete runs\<close>

text \<open>
  A ceiling of three retries, one task edited on 2 January 2024 and one pending item for
  it. The clock prints a new millisecond at each reading; the server of \<open>ex_env\<close> is
  unreachable for the batch request.
\<close>

definition ex_env :: env where
  "ex_env = \<lparr>MAX_RETRY = 3, SYNC_BATCH_SIZE = 50, axios_get_health = True,
     axios_post_batch = (\<lambda>req. None),
     Date_now = (\<lambda>n. ''2024-01-03T00:00:00.00'' @ [''0123456789'' ! (n mod 10)] @ ''Z''),
     CURRENT_TIMESTAMP = (\<lambda>n. ''2024-01-03 00:00:00''),
     Date_getTime = map_of [(''2024-01-01 00:00:00'', 1704067200000),
                            (''2024-01-02 00:00:00'', 1704153600000)],
     sqlite_datetime = Some,
     uuidv4 = (\<lambda>n. ''uuid-'' @ [''0123456789'' ! (n mod 10)])\<rparr>"

definition ex_task :: Task where
  "ex_task = \<lparr>id_t = ''t1'', title = ''a'', description = ''b'', completed = False,
     created_at = ''2024-01-01 00:00:00'', updated_at = ''2024-01-02 00:00:00'',
     is_deleted = False, sync_status = Pending, server_id = None, last_synced_at = None\<rparr>"

definition ex_item :: SyncQueueItem where
  "ex_item = \<lparr>id_q = ''q1'', task_id = ''t1'', operation = Create,
     data = JSON_text (JObject [(''data'', JObject [(''title'', JString ''a'')])]),
     created_at_q = ''2024-01-02 00:00:00'', retry_count = Some 0, last_error = None,
     updated_at_q = None\<rparr>"

definition ex_world :: world where
  "ex_world = \<lparr>tasks = [ex_task], sync_queue = [ex_item],
     meta = [(''last_sync_timestamp'', ''never'')], ticks = 0, uuids = 0\<rparr>"

text \<open>An item on its third failure, an older item, and a queue that holds all three.\<close>

definition ex_last_try :: SyncQueueItem where
  "ex_last_try = ex_item\<lparr>id_q := ''q2'', retry_count := Some 2\<rparr>"

definition ex_poisoned :: SyncQueueItem where
  "ex_poisoned = ex_item\<lparr>id_q := ''q3'', retry_count := Some 3,
     created_at_q := ''2023-12-31 00:00:00''\<rparr>"

definition ex_older :: SyncQueueItem where
  "ex_older = ex_item\<lparr>id_q := ''q4'', retry_count := None,
     created_at_q := ''2024-01-01 00:00:00''\<rparr>"

definition ex_queue :: world where
  "ex_queue = ex_world\<lparr>sync_queue := [ex_item, ex_poisoned, ex_older]\<rparr>"

text \<open>
  Server answers for \<open>q1\<close>: accepted with no \<open>server_id\<close>; in conflict with a copy of
  1 January.
\<close>

definition ex_success :: processed_item where
  "ex_success = \<lparr>client_id = ''q1'', status = ''success'', server_id_r = None,
     resolved_data = None, error_r = None\<rparr>"

definition ex_stale :: partial_task where
  "ex_stale = no_fields\<lparr>updated_at_p := Some ''2024-01-01 00:00:00'', title_p := Some ''z''\<rparr>"

definition ex_conflict :: processed_item where
  "ex_conflict = \<lparr>client_id = ''q1'', status = ''conflict'', server_id_r = None,
     resolved_data = Some ex_stale, error_r = None\<rparr>"

definition ex_env_accepting :: env where
  "ex_env_accepting =
     ex_env\<lparr>axios_post_batch := (\<lambda>req. Some \<lparr>processed_items = Some [ex_success]\<rparr>)\<rparr>"

definition ex_env_offline :: env where
  "ex_env_offline = ex_env\<lparr>axios_get_health := False\<rparr>"

definition ex_deleted :: world where
  "ex_deleted = ex_world\<lparr>tasks := [ex_task\<lparr>is_deleted := True\<rparr>]\<rparr>"

text \<open>
  More answers: a conflict for \<open>q4\<close> whose server copy carries no \<open>updated_at\<close>, \<open>q1\<close>
  accepted under a server id, \<open>q1\<close> refused. \<open>ex_env_answering\<close> is the server that
  returns a given list of processed items.
\<close>

definition ex_undated :: processed_item where
  "ex_undated = \<lparr>client_id = ''q4'', status = ''conflict'', server_id_r = None,
     resolved_data = Some no_fields, error_r = None\<rparr>"

definition ex_accepted :: processed_item where
  "ex_accepted = \<lparr>client_id = ''q1'', status = ''success'', server_id_r = Some ''srv-1'',
     resolved_data = None, error_r = None\<rparr>"

definition ex_refused :: processed_item where
  "ex_refused = \<lparr>client_id = ''q1'', status = ''error'', server_id_r = None,
     resolved_data = None, error_r = Some ''refused''\<rparr>"

definition ex_env_answering :: "processed_item list \<Rightarrow> env" where
  "ex_env_answering ps =
     ex_env\<lparr>axios_post_batch := (\<lambda>req. Some \<lparr>processed_items = Some ps\<rparr>)\<rparr>"

text \<open>
  A second task, soft-deleted, with its pending delete \<open>q5\<close>, next to the first task and
  its older item \<open>q4\<close>; and a conflict answer for \<open>q5\<close>.
\<close>

definition ex_task2 :: Task where
  "ex_task2 = ex_task\<lparr>id_t := ''t2'', is_deleted := True\<rparr>"

definition ex_item2 :: SyncQueueItem where
  "ex_item2 = ex_item\<lparr>id_q := ''q5'', task_id := ''t2'', operation := Delete\<rparr>"

definition ex_two :: world where
  "ex_two = ex_world\<lparr>tasks := [ex_task, ex_task2], sync_queue := [ex_older, ex_item2]\<rparr>"

definition ex_conflict2 :: processed_item where
  "ex_conflict2 = \<lparr>client_id = ''q5'', status = ''conflict'', server_id_r = None,
     resolved_data = Some ex_stale, error_r = None\<rparr>"

text \<open>
  The end of the \<open>try\<close> block of a batch, from the outcome of the loop over the processed
  items: the \<open>catch\<close> block after a throw, the unreturned items otherwise.
\<close>

abbreviation end_batch ::
  "env \<Rightarrow> processed_item list \<Rightarrow> SyncQueueItem list
     \<Rightarrow> (string \<times> world \<times> SyncResult) + (world \<times> SyncResult) \<Rightarrow> world \<times> SyncResult" where
  "end_batch e ps batch res \<equiv>
     (case res of Inl (msg, c) \<Rightarrow> catch_batch e batch msg c | Inr c \<Rightarrow> unreturned e ps batch c)"

lemmas ex_defs = ex_env_def ex_task_def ex_item_def ex_world_def ex_last_try_def
  ex_poisoned_def ex_older_def ex_queue_def ex_success_def ex_stale_def ex_conflict_def
  ex_env_accepting_def ex_env_offline_def ex_deleted_def ex_undated_def ex_accepted_def
  ex_refused_def ex_env_answering_def ex_task2_def ex_item2_def ex_two_def ex_conflict2_def

lemmas leaf_defs = checkConnectivity_def ifnull_def nextRetry_def record_error_def
  handleSyncError_def updateSyncStatus_def status_fields_def set_field_def tick_def now_def
  removeQueueItem_def no_fields_def

lemmas cycle_defs = sync_def getQueueItemsToProcess_def chunk_def chunk_from.simps
  sync_batch_def try_batch_def catch_batch_def processBatch_def payload_def result0_def
  process_item_def byClientId_def finish_item_def on_success_def count_synced_def
  count_failed_def mark_last_sync_def unreturned_def fail_item_def push_error_def

section \<open>Last-write-wins resolution\<close>

lemma js_ge_simps [simp]:
  "js_ge (Some a) (Some b) = (b \<le> a)"
  "js_ge None y = False"
  "js_ge x None = False"
  by (auto simp: js_ge_def split: option.splits)


text \<open>
  C1. \<open>resolveConflict\<close> is a function of its two tasks; it returns the local task exactly
  when the local \<open>updated_at\<close> is \<open>>=\<close> the remote one, as JavaScript compares the two
  readings. When both timestamps parse, the strictly later one wins and a tie goes to the
  local task. (When one does not parse, the comparison is false and the call throws while
  it logs, so the local task is not returned.)
\<close>

theorem resolveConflict_lww:
  "(resolveConflict e l r = Inr (LocalTask l)) =
     js_ge (Date_getTime e (updated_at l)) (getTime_p e (updated_at_p r))
   \<and> (\<forall>a b. Date_getTime e (updated_at l) = Some a \<longrightarrow>
         getTime_p e (updated_at_p r) = Some b \<longrightarrow>
         resolveConflict e l r = Inr (if a \<ge> b then LocalTask l else ServerTask r))"
  by (cases "Date_getTime e (updated_at l)"; cases "getTime_p e (updated_at_p r)")
     (auto simp: resolveConflict_def Let_def)

theorem resolveConflict_lww_witness:
  "Date_getTime ex_env (updated_at ex_task) = Some 1704153600000
   \<and> getTime_p ex_env (updated_at_p ex_stale) = Some 1704067200000
   \<and> resolveConflict ex_env ex_task ex_stale = Inr (LocalTask ex_task)"
  using resolveConflict_lww [of ex_env ex_task ex_stale]
  by (simp add: ex_defs no_fields_def getTime_p_def)

section \<open>The offline short-circuit\<close>

text \<open>
  C2. When the connectivity check fails, \<open>sync\<close> returns \<open>success = false\<close> with both
  counts zero and no error record, and the store it leaves is the store it found: tasks,
  queue and metadata are untouched.
\<close>

theorem sync_offline:
  "\<not> checkConnectivity e \<Longrightarrow>
     sync e w = (w, \<lparr>success = False, synced_items = 0, failed_items = 0, errors = []\<rparr>)"
  by (simp add: sync_def result0_def)

theorem sync_offline_witness:
  "\<not> checkConnectivity ex_env_offline
   \<and> sync ex_env_offline ex_world =
       (ex_world, \<lparr>success = False, synced_items = 0, failed_items = 0, errors = []\<rparr>)"
proof -
  have off: "\<not> checkConnectivity ex_env_offline"
    by (simp add: checkConnectivity_def ex_env_offline_def ex_env_def)
  from off sync_offline [OF off, of ex_world] show ?thesis by simp
qed

section \<open>Retry accounting\<close>

lemma sync_queue_updateSyncStatus [simp]:
  "sync_queue (updateSyncStatus e i st d w) = sync_queue w"
  by (simp add: updateSyncStatus_def tick_def)

lemma tasks_updateSyncStatus:
  "tasks (updateSyncStatus e i st d w) =
     map (\<lambda>t. if id_t t = i then status_fields st (now e w) d t else t) (tasks w)"
  by (simp add: updateSyncStatus_def tick_def)

lemma sync_queue_handleSyncError:
  "sync_queue (handleSyncError e item msg w) =
     map (record_error item msg (now e w)) (sync_queue w)"
  by (simp add: handleSyncError_def Let_def tick_def)

lemma tasks_handleSyncError:
  "tasks (handleSyncError e item msg w) =
     (if nextRetry item \<ge> MAX_RETRY e
      then map (\<lambda>t. if id_t t = task_id item
                     then t\<lparr>sync_status := Error,
                            last_synced_at := Some (Date_now e (Suc (ticks w)))\<rparr>
                     else t) (tasks w)
      else tasks w)"
  by (simp add: handleSyncError_def Let_def tick_def tasks_updateSyncStatus status_fields_def
        now_def)

lemma id_q_record_error [simp]: "id_q (record_error item msg n r) = id_q r"
  by (simp add: record_error_def)

text \<open>
  C3, as the code has it. For every item handed to \<open>handleSyncError\<close> and every error
  message, row by row of the queue: a row with the item's id keeps its id and gets as
  \<open>retry_count\<close> the count of the item in hand plus one (a NULL count reads as 0), the
  message as \<open>last_error\<close> and the current clock reading as \<open>updated_at\<close>; that is the
  stored count plus exactly one whenever the item in hand carries the stored count. Every
  other row is unchanged, and no row is removed. When the new count reaches \<open>MAX_RETRY\<close>,
  every task row of the item's \<open>task_id\<close> has \<open>sync_status\<close> \<open>error\<close> afterwards and the
  other task rows are as before.
\<close>

theorem handleSyncError_accounting:
  "list_all2 (\<lambda>r r'. if id_q r = id_q item
                       then id_q r' = id_q r
                            \<and> retry_count r' = Some (ifnull (retry_count item) 0 + 1)
                            \<and> last_error r' = Some msg \<and> updated_at_q r' = Some (now e w)
                            \<and> (retry_count r = retry_count item \<longrightarrow>
                                 retry_count r' = Some (ifnull (retry_count r) 0 + 1))
                       else r' = r)
     (sync_queue w) (sync_queue (handleSyncError e item msg w))
   \<and> (ifnull (retry_count item) 0 + 1 \<ge> MAX_RETRY e \<longrightarrow>
        list_all2 (\<lambda>t t'. if id_t t = task_id item
                             then id_t t' = id_t t \<and> sync_status t' = Error
                             else t' = t)
          (tasks w) (tasks (handleSyncError e item msg w)))"
proof -
  let ?w' = "handleSyncError e item msg w"
  have rows: "list_all2 (\<lambda>r r'. if id_q r = id_q item
                       then id_q r' = id_q r
                            \<and> retry_count r' = Some (ifnull (retry_count item) 0 + 1)
                            \<and> last_error r' = Some msg \<and> updated_at_q r' = Some (now e w)
                            \<and> (retry_count r = retry_count item \<longrightarrow>
                                 retry_count r' = Some (ifnull (retry_count r) 0 + 1))
                       else r' = r)
     (sync_queue w) (sync_queue ?w')"
    by (simp add: sync_queue_handleSyncError list_all2_map2 record_error_def nextRetry_def
          list_all2_same)
  have ceiling: "ifnull (retry_count item) 0 + 1 \<ge> MAX_RETRY e \<longrightarrow>
      list_all2 (\<lambda>t t'. if id_t t = task_id item
                           then id_t t' = id_t t \<and> sync_status t' = Error
                           else t' = t)
        (tasks w) (tasks ?w')"
    by (auto simp: tasks_handleSyncError nextRetry_def list_all2_map2 intro!: list_all2_refl)
  from rows ceiling show ?thesis by (rule conjI)
qed

theorem handleSyncError_accounting_witness:
  "ifnull (retry_count ex_last_try) 0 + 1 \<ge> MAX_RETRY ex_env
   \<and> sync_queue (ex_world\<lparr>sync_queue := [ex_item, ex_last_try]\<rparr>) = [ex_item, ex_last_try]
   \<and> sync_queue (handleSyncError ex_env ex_last_try ''timeout''
        (ex_world\<lparr>sync_queue := [ex_item, ex_last_try]\<rparr>)) =
       [ex_item, ex_last_try\<lparr>retry_count := Some 3, last_error := Some ''timeout'',
                             updated_at_q := Some ''2024-01-03T00:00:00.000Z''\<rparr>]
   \<and> map sync_status (tasks (handleSyncError ex_env ex_last_try ''timeout''
        (ex_world\<lparr>sync_queue := [ex_item, ex_last_try]\<rparr>))) = [Error]"
  using handleSyncError_accounting
    [where item = ex_last_try and w = "ex_world\<lparr>sync_queue := [ex_item, ex_last_try]\<rparr>"
       and msg = "''timeout''" and e = ex_env]
  by (simp add: ex_defs leaf_defs)

text \<open>
  The claim as written fails when the item in hand is a stale copy, as the cycle passes
  one on a second verdict for the same item: the item fetched with count 0 is charged
  twice, the second call finds the stored count at 1 and leaves it at 1. A cycle whose
  response refuses \<open>q1\<close> twice counts two failures and stores a count of 1.
\<close>

theorem handleSyncError_stale_copy:
  "map retry_count (sync_queue (handleSyncError ex_env ex_item ''refused'' ex_world)) = [Some 1]
   \<and> map retry_count (sync_queue (handleSyncError ex_env ex_item ''refused''
        (handleSyncError ex_env ex_item ''refused'' ex_world))) = [Some 1]
   \<and> map retry_count (sync_queue (fst (sync (ex_env_answering [ex_refused, ex_refused])
        ex_world))) = [Some 1]
   \<and> failed_items (snd (sync (ex_env_answering [ex_refused, ex_refused]) ex_world)) = 2"
  by (simp add: ex_defs leaf_defs cycle_defs on_server_error_def or_default_def)

text \<open>
  C9, as the code has it. When the new retry count reaches the ceiling, \<open>handleSyncError\<close>
  is the write on the queue followed by \<open>updateSyncStatus\<close> with status \<open>error\<close>, which
  also writes the clock reading of that moment into \<open>last_synced_at\<close>: every row of the
  owning task ends with \<open>sync_status\<close> \<open>error\<close> and \<open>last_synced_at\<close> set to the time of
  the failure, whatever it held before (also for a task that was never synced). For such
  a task \<open>last_synced_at\<close> is then not the time of a successful sync.
\<close>

theorem handleSyncError_ceiling_last_synced_at:
  assumes "nextRetry item \<ge> MAX_RETRY e" and "t \<in> set (tasks w)"
    and "id_t t = task_id item"
  shows "handleSyncError e item msg w =
           updateSyncStatus e (task_id item) Error None
             (tick (w\<lparr>sync_queue := map (record_error item msg (now e w)) (sync_queue w)\<rparr>))
     \<and> t\<lparr>sync_status := Error, last_synced_at := Some (Date_now e (Suc (ticks w)))\<rparr>
           \<in> set (tasks (handleSyncError e item msg w))
     \<and> (\<forall>t' \<in> set (tasks (handleSyncError e item msg w)). id_t t' = task_id item \<longrightarrow>
           sync_status t' = Error
           \<and> last_synced_at t' = Some (Date_now e (Suc (ticks w))))"
proof -
  have via: "handleSyncError e item msg w =
           updateSyncStatus e (task_id item) Error None
             (tick (w\<lparr>sync_queue := map (record_error item msg (now e w)) (sync_queue w)\<rparr>))"
    using assms(1) by (simp add: handleSyncError_def Let_def)
  have marked: "t\<lparr>sync_status := Error, last_synced_at := Some (Date_now e (Suc (ticks w)))\<rparr>
           \<in> set (tasks (handleSyncError e item msg w))"
    using assms by (auto simp: tasks_handleSyncError intro!: image_eqI [where x = t])
  have all: "\<forall>t' \<in> set (tasks (handleSyncError e item msg w)). id_t t' = task_id item \<longrightarrow>
           sync_status t' = Error
           \<and> last_synced_at t' = Some (Date_now e (Suc (ticks w)))"
    using assms(1) by (auto simp: tasks_handleSyncError)
  from via marked all show ?thesis by (intro conjI)
qed

theorem handleSyncError_ceiling_last_synced_at_witness:
  "nextRetry ex_last_try \<ge> MAX_RETRY ex_env \<and> ex_task \<in> set (tasks ex_world)
   \<and> id_t ex_task = task_id ex_last_try
   \<and> last_synced_at ex_task = None \<and> sync_status ex_task = Pending
   \<and> tasks (handleSyncError ex_env ex_last_try ''timeout'' ex_world) =
       [ex_task\<lparr>sync_status := Error, last_synced_at := Some ''2024-01-03T00:00:00.001Z''\<rparr>]"
  using handleSyncError_ceiling_last_synced_at
    [where e = ex_env and item = ex_last_try and t = ex_task and w = ex_world
       and msg = "''timeout''"]
  by (simp add: ex_defs leaf_defs)

text \<open>
  The claim as written says it of every task, and fails for a task whose last sync event
  was a success: after the cycle below the task is \<open>synced\<close> and its \<open>last_synced_at\<close> is
  the clock reading at which that success was recorded.
\<close>

theorem last_synced_at_after_success:
  "map sync_status (tasks (fst (sync ex_env_accepting ex_world))) = [Synced]
   \<and> map last_synced_at (tasks (fst (sync ex_env_accepting ex_world))) =
       [Some (now ex_env_accepting (tick ex_world))]
   \<and> synced_items (snd (sync ex_env_accepting ex_world)) = 1
   \<and> failed_items (snd (sync ex_env_accepting ex_world)) = 0"
  by (simp add: ex_defs leaf_defs cycle_defs)

section \<open>Reaching a processed item\<close>

text \<open>
  The cycle handles a processed item of a response when the request of its batch returns
  and the items before it in the response have been handled without a throw. The cycle
  then goes on from the state that the item leaves.
\<close>

lemma process_items_append:
  "process_items e batch (ps @ qs) c =
     (case process_items e batch ps c of
        Inl x \<Rightarrow> Inl x
      | Inr c' \<Rightarrow> process_items e batch qs c')"
  by (induction ps arbitrary: c) (auto split: sum.splits)

lemma sync_batches_append:
  "sync_batches e (bs @ cs) c = sync_batches e cs (sync_batches e bs c)"
  by (induction bs arbitrary: c) simp_all

lemma sync_through_item:
  assumes online: "checkConnectivity e"
    and items: "getQueueItemsToProcess e w \<noteq> []"
    and batches: "chunk (getQueueItemsToProcess e w) (SYNC_BATCH_SIZE e) = before @ batch # after"
    and start: "sync_batches e before (w, result0) = (w0, r0)"
    and resp: "axios_post_batch e (payload e batch w0) = Some resp"
    and verdicts: "processed_items resp = Some (earlier @ p # later)"
    and reached: "process_items e batch earlier (tick w0, r0) = Inr c1"
    and step: "process_item e batch p c1 = Inr c2"
  shows "process_items e batch (earlier @ [p]) (tick w0, r0) = Inr c2"
    and "sync e w =
           sync_batches e after
             (end_batch e (earlier @ p # later) batch (process_items e batch later c2))"
proof -
  show upto: "process_items e batch (earlier @ [p]) (tick w0, r0) = Inr c2"
    using reached step by (simp add: process_items_append)
  have loop: "process_items e batch (earlier @ p # later) (tick w0, r0) =
      process_items e batch later c2"
    using reached step by (simp add: process_items_append)
  have "try_batch e batch (w0, r0) =
      (case process_items e batch later c2 of
         Inl x \<Rightarrow> Inl x
       | Inr c' \<Rightarrow> Inr (unreturned e (earlier @ p # later) batch c'))"
    using resp verdicts loop by (simp add: try_batch_def processBatch_def)
  then have one: "sync_batch e batch (w0, r0) =
      end_batch e (earlier @ p # later) batch (process_items e batch later c2)"
    by (simp add: sync_batch_def split: sum.splits)
  have "sync e w = sync_batches e (before @ batch # after) (w, result0)"
    using online items batches by (simp add: sync_def Let_def)
  also have "\<dots> = sync_batches e after (sync_batch e batch (w0, r0))"
    using start by (simp add: sync_batches_append)
  finally show "sync e w =
      sync_batches e after
        (end_batch e (earlier @ p # later) batch (process_items e batch later c2))"
    by (simp only: one)
qed

section \<open>The outcomes of one processed item\<close>

lemma status_fields_simps [simp]:
  "id_t (status_fields st n d t) = id_t t"
  "sync_status (status_fields st n d t) = st"
  "last_synced_at (status_fields st n d t) = Some n"
  by (simp_all add: status_fields_def set_field_def Let_def split: option.splits)

lemma server_id_status_fields:
  "server_id (status_fields st n (Some d) t) =
     (case server_id_p d of None \<Rightarrow> server_id t | Some x \<Rightarrow> Some x)"
  by (simp add: status_fields_def set_field_def Let_def split: option.splits)

lemma mark_last_sync_simps [simp]:
  "tasks (mark_last_sync e w) = tasks w"
  "sync_queue (mark_last_sync e w) = sync_queue w"
  by (simp_all add: mark_last_sync_def tick_def)

lemma success_step:
  assumes "byClientId batch (client_id p) = Some q" and "status p = ''success''"
  shows "\<exists>w' r'. process_item e batch p (w, r) = Inr (w', r')
     \<and> list_all2 (\<lambda>t t'. if id_t t = task_id q
                          then id_t t' = id_t t \<and> sync_status t' = Synced
                               \<and> last_synced_at t' = Some (now e w)
                               \<and> server_id t' =
                                   (case server_id_r p of None \<Rightarrow> server_id t
                                    | Some x \<Rightarrow> Some x)
                          else t' = t) (tasks w) (tasks w')
     \<and> sync_queue w' = filter (\<lambda>row. id_q row \<noteq> id_q q) (sync_queue w)
     \<and> synced_items r' = synced_items r + 1 \<and> failed_items r' = failed_items r
     \<and> success r' = success r"
  using assms
  by (simp add: process_item_def finish_item_def on_success_def Let_def removeQueueItem_def
        count_synced_def tasks_updateSyncStatus list_all2_map2 server_id_status_fields
        list_all2_same)

text \<open>
  C4, as the code has it. Take a cycle with the server reachable, one of its batches, the
  response to that batch's request, and a processed item of the response with status
  \<open>success\<close> that matches a queue item of the batch; let the processed items before it
  in the response have been handled without a throw, leaving the store \<open>w1\<close> and the
  result \<open>r1\<close>. Then \<open>sync\<close> handles the item: every row of the owning task gets
  \<open>sync_status\<close> \<open>synced\<close> and the current clock reading as \<open>last_synced_at\<close>; its
  \<open>server_id\<close> becomes the one of the result when the result carries one and stays as it
  was otherwise; the queue item is removed from the queue; the synced count grows by one
  and the failed count not at all. The cycle goes on from that state with the rest of the
  response and the remaining batches.
\<close>

theorem success_verdict:
  assumes online: "checkConnectivity e"
    and items: "getQueueItemsToProcess e w \<noteq> []"
    and batches: "chunk (getQueueItemsToProcess e w) (SYNC_BATCH_SIZE e) = before @ batch # after"
    and start: "sync_batches e before (w, result0) = (w0, r0)"
    and resp: "axios_post_batch e (payload e batch w0) = Some resp"
    and verdicts: "processed_items resp = Some (earlier @ p # later)"
    and reached: "process_items e batch earlier (tick w0, r0) = Inr (w1, r1)"
    and item: "byClientId batch (client_id p) = Some q"
    and verdict: "status p = ''success''"
  shows "\<exists>w2 r2. process_items e batch (earlier @ [p]) (tick w0, r0) = Inr (w2, r2)
     \<and> sync e w =
         sync_batches e after
           (end_batch e (earlier @ p # later) batch (process_items e batch later (w2, r2)))
     \<and> list_all2 (\<lambda>t t'. if id_t t = task_id q
                          then id_t t' = id_t t \<and> sync_status t' = Synced
                               \<and> last_synced_at t' = Some (now e w1)
                               \<and> server_id t' =
                                   (case server_id_r p of None \<Rightarrow> server_id t
                                    | Some x \<Rightarrow> Some x)
                          else t' = t) (tasks w1) (tasks w2)
     \<and> sync_queue w2 = filter (\<lambda>row. id_q row \<noteq> id_q q) (sync_queue w1)
     \<and> synced_items r2 = synced_items r1 + 1 \<and> failed_items r2 = failed_items r1
     \<and> success r2 = success r1"
proof -
  from success_step [OF item verdict, of e w1 r1]
  obtain w2 r2 where step: "process_item e batch p (w1, r1) = Inr (w2, r2)"
    and post: "list_all2 (\<lambda>t t'. if id_t t = task_id q
                          then id_t t' = id_t t \<and> sync_status t' = Synced
                               \<and> last_synced_at t' = Some (now e w1)
                               \<and> server_id t' =
                                   (case server_id_r p of None \<Rightarrow> server_id t
                                    | Some x \<Rightarrow> Some x)
                          else t' = t) (tasks w1) (tasks w2)"
      "sync_queue w2 = filter (\<lambda>row. id_q row \<noteq> id_q q) (sync_queue w1)"
      "synced_items r2 = synced_items r1 + 1" "failed_items r2 = failed_items r1"
      "success r2 = success r1"
    by blast
  note through = sync_through_item [OF online items batches start resp verdicts reached step]
  from through post show ?thesis by (intro exI conjI)
qed

theorem success_verdict_witness:
  "checkConnectivity (ex_env_answering [ex_accepted])
   \<and> getQueueItemsToProcess (ex_env_answering [ex_accepted]) ex_queue = [ex_older, ex_item]
   \<and> byClientId [ex_older, ex_item] (client_id ex_accepted) = Some ex_item
   \<and> status ex_accepted = ''success''
   \<and> (\<exists>w2 r2. process_items (ex_env_answering [ex_accepted]) [ex_older, ex_item]
                  [ex_accepted] (tick ex_queue, result0) = Inr (w2, r2)
        \<and> tasks w2 = [ex_task\<lparr>sync_status := Synced, server_id := Some ''srv-1'',
                               last_synced_at := Some ''2024-01-03T00:00:00.001Z''\<rparr>]
        \<and> sync_queue w2 = [ex_poisoned, ex_older]
        \<and> synced_items r2 = 1 \<and> failed_items r2 = 0
        \<and> sync (ex_env_answering [ex_accepted]) ex_queue =
            unreturned (ex_env_answering [ex_accepted]) [ex_accepted] [ex_older, ex_item]
              (w2, r2))"
proof -
  let ?e = "ex_env_answering [ex_accepted]"
  let ?batch = "[ex_older, ex_item]"
  have online: "checkConnectivity ?e"
    by (simp add: checkConnectivity_def ex_defs)
  have fetched: "getQueueItemsToProcess ?e ex_queue = ?batch"
    by (simp add: getQueueItemsToProcess_def ifnull_def ex_defs)
  then have items: "getQueueItemsToProcess ?e ex_queue \<noteq> []"
    by simp
  have batches: "chunk (getQueueItemsToProcess ?e ex_queue) (SYNC_BATCH_SIZE ?e) =
      [] @ ?batch # []"
    unfolding fetched by (simp add: chunk_def chunk_from.simps ex_defs)
  have start: "sync_batches ?e [] (ex_queue, result0) = (ex_queue, result0)"
    by simp
  have resp: "axios_post_batch ?e (payload ?e ?batch ex_queue) =
      Some \<lparr>processed_items = Some [ex_accepted]\<rparr>"
    by (simp add: ex_env_answering_def)
  have verdicts: "processed_items \<lparr>processed_items = Some [ex_accepted]\<rparr> =
      Some ([] @ ex_accepted # [])"
    by simp
  have reached: "process_items ?e ?batch [] (tick ex_queue, result0) =
      Inr (tick ex_queue, result0)"
    by simp
  have item: "byClientId ?batch (client_id ex_accepted) = Some ex_item"
    by (simp add: byClientId_def ex_defs)
  have verdict: "status ex_accepted = ''success''"
    by (simp add: ex_defs)
  from success_verdict [OF online items batches start resp verdicts reached item verdict]
  obtain w2 r2 where
    run: "process_items ?e ?batch ([] @ [ex_accepted]) (tick ex_queue, result0) = Inr (w2, r2)"
    and rest: "sync ?e ex_queue =
      sync_batches ?e [] (end_batch ?e ([] @ ex_accepted # []) ?batch
        (process_items ?e ?batch [] (w2, r2)))"
    and post: "sync_queue w2 =
        filter (\<lambda>row. id_q row \<noteq> id_q ex_item) (sync_queue (tick ex_queue))"
      "synced_items r2 = synced_items result0 + 1" "failed_items r2 = failed_items result0"
    by blast
  have "tasks (fst (projr (process_items ?e ?batch [ex_accepted] (tick ex_queue, result0)))) =
      [ex_task\<lparr>sync_status := Synced, server_id := Some ''srv-1'',
                last_synced_at := Some ''2024-01-03T00:00:00.001Z''\<rparr>]"
    by (simp add: ex_defs leaf_defs cycle_defs)
  with run have tasks: "tasks w2 =
      [ex_task\<lparr>sync_status := Synced, server_id := Some ''srv-1'',
                last_synced_at := Some ''2024-01-03T00:00:00.001Z''\<rparr>]"
    by simp
  from post have state: "sync_queue w2 = [ex_poisoned, ex_older]"
      "synced_items r2 = 1" "failed_items r2 = 0"
    by (simp_all add: ex_defs tick_def result0_def)
  from rest have rest': "sync ?e ex_queue = unreturned ?e [ex_accepted] ?batch (w2, r2)"
    by simp
  from run tasks state rest'
  have "process_items ?e ?batch [ex_accepted] (tick ex_queue, result0) = Inr (w2, r2)
        \<and> tasks w2 = [ex_task\<lparr>sync_status := Synced, server_id := Some ''srv-1'',
                               last_synced_at := Some ''2024-01-03T00:00:00.001Z''\<rparr>]
        \<and> sync_queue w2 = [ex_poisoned, ex_older]
        \<and> synced_items r2 = 1 \<and> failed_items r2 = 0
        \<and> sync ?e ex_queue = unreturned ?e [ex_accepted] ?batch (w2, r2)"
    by simp
  then have "\<exists>w2 r2. process_items ?e ?batch [ex_accepted] (tick ex_queue, result0) = Inr (w2, r2)
        \<and> tasks w2 = [ex_task\<lparr>sync_status := Synced, server_id := Some ''srv-1'',
                               last_synced_at := Some ''2024-01-03T00:00:00.001Z''\<rparr>]
        \<and> sync_queue w2 = [ex_poisoned, ex_older]
        \<and> synced_items r2 = 1 \<and> failed_items r2 = 0
        \<and> sync ?e ex_queue = unreturned ?e [ex_accepted] ?batch (w2, r2)"
    by (intro exI)
  with online fetched item verdict show ?thesis by (intro conjI)
qed

text \<open>
  The claim as written fails in two ways. A success result that carries no \<open>server_id\<close>
  leaves the task synced with an empty \<open>server_id\<close>. And a success result is not handled
  at all when an item before it in the response makes the conflict resolution throw: in
  the second cycle the response answers \<open>q4\<close> with a conflict that has no \<open>updated_at\<close>
  and accepts \<open>q1\<close>; the task stays \<open>pending\<close>, \<open>q1\<close> stays in the queue charged with
  the thrown error, and nothing is counted as synced.
\<close>

theorem success_not_as_claimed:
  "sync ex_env_accepting ex_world =
     (\<lparr>tasks = [ex_task\<lparr>sync_status := Synced,
                         last_synced_at := Some ''2024-01-03T00:00:00.001Z''\<rparr>],
       sync_queue = [], meta = [(''last_sync_timestamp'', ''2024-01-03T00:00:00.002Z'')],
       ticks = 3, uuids = 0\<rparr>,
      \<lparr>success = True, synced_items = 1, failed_items = 0, errors = []\<rparr>)
   \<and> server_id (ex_task\<lparr>sync_status := Synced,
                         last_synced_at := Some ''2024-01-03T00:00:00.001Z''\<rparr>) = None
   \<and> byClientId [ex_older, ex_item] (client_id ex_accepted) = Some ex_item
   \<and> status ex_accepted = ''success''
   \<and> tasks (fst (sync (ex_env_answering [ex_undated, ex_accepted]) ex_queue)) = [ex_task]
   \<and> sync_status ex_task = Pending
   \<and> map id_q (sync_queue (fst (sync (ex_env_answering [ex_undated, ex_accepted]) ex_queue))) =
       [''q1'', ''q3'', ''q4'']
   \<and> map last_error
        (sync_queue (fst (sync (ex_env_answering [ex_undated, ex_accepted]) ex_queue))) =
       [Some ''Invalid time value'', None, Some ''Invalid time value'']
   \<and> synced_items (snd (sync (ex_env_answering [ex_undated, ex_accepted]) ex_queue)) = 0
   \<and> failed_items (snd (sync (ex_env_answering [ex_undated, ex_accepted]) ex_queue)) = 2"
  by (simp add: ex_defs leaf_defs cycle_defs getTask_def resolveConflict_def getTime_p_def)

section \<open>The outbox payload\<close>

text \<open>
  C8, as the code has it. \<open>addToSyncQueue\<close> appends one row, and what \<open>safeParseData\<close>
  reads from the row's \<open>data\<close> is an object whose one field \<open>data\<close> holds the snapshot
  that was passed in.
\<close>

theorem outbox_payload_wrapped:
  "sync_queue (addToSyncQueue e taskId op snapshot w) =
     sync_queue w @ [last (sync_queue (addToSyncQueue e taskId op snapshot w))]
   \<and> safeParseData (data (last (sync_queue (addToSyncQueue e taskId op snapshot w)))) =
       JObject [(''data'', snapshot)]"
  by (simp add: addToSyncQueue_def safeParseData_def JSON_stringify_def)

text \<open>
  The claim as written fails: the value read back is not the snapshot itself.
\<close>

theorem outbox_payload_not_snapshot:
  "safeParseData (data (last (sync_queue
       (addToSyncQueue ex_env ''t1'' Update (local_snapshot ex_task) ex_world)))) =
     JObject [(''data'', local_snapshot ex_task)]
   \<and> safeParseData (data (last (sync_queue
       (addToSyncQueue ex_env ''t1'' Update (local_snapshot ex_task) ex_world)))) \<noteq>
     local_snapshot ex_task"
  by (simp add: addToSyncQueue_def safeParseData_def JSON_stringify_def local_snapshot_def)

section \<open>Conflicts\<close>










section \<open>A batch whose request fails\<close>


lemma fail_item_counts:
  "failed_items (snd (fail_item e msg shown it c)) = failed_items (snd c) + 1"
  "synced_items (snd (fail_item e msg shown it c)) = synced_items (snd c)"
  "success (snd (fail_item e msg shown it c)) = success (snd c)"
  by (cases c; simp add: fail_item_def push_error_def count_failed_def)+






text \<open>Nothing in a cycle sets \<open>success\<close> back to true.\<close>

lemma push_error_success [simp]:
  "success (snd (push_error e tid op msg c)) = success (snd c)"
  by (cases c) (simp add: push_error_def)

lemma outcome_success [simp]:
  "success (snd (on_success e q p c)) = success (snd c)"
  "success (snd (on_missing_data e q c)) = success (snd c)"
  "success (snd (on_local_wins e q l c)) = success (snd c)"
  "success (snd (on_server_wins e q st c)) = success (snd c)"
  "success (snd (on_server_error e q p c)) = success (snd c)"
  "success (snd (finish_item e c)) = success (snd c)"
  by (cases c; simp add: on_success_def on_missing_data_def on_local_wins_def
        on_server_wins_def on_server_error_def finish_item_def count_failed_def
        count_synced_def Let_def split: prod.splits; simp add: push_error_def)+



lemma unreturned_success [simp]:
  "success (snd (unreturned e ps batch c)) = success (snd c)"
  unfolding unreturned_def by (induction batch arbitrary: c) (simp_all add: fail_item_counts)






section \<open>What a cycle processes\<close>

lemma concat_chunk_from: "0 < sz \<Longrightarrow> concat (chunk_from arr sz i) = drop i arr"
proof (induction arr sz i rule: chunk_from.induct)
  case (1 arr sz i)
  show ?case
  proof (cases "i < length arr")
    case True
    have "concat (chunk_from arr sz i) =
        take sz (drop i arr) @ concat (chunk_from arr sz (i + sz))"
      using True "1.prems" by (subst chunk_from.simps) simp
    also have "\<dots> = take sz (drop i arr) @ drop sz (drop i arr)"
      using "1.IH" True "1.prems" by (simp add: add.commute)
    also have "\<dots> = drop i arr"
      by (rule append_take_drop_id)
    finally show ?thesis .
  next
    case False
    then show ?thesis by (subst chunk_from.simps) simp
  qed
qed

lemma concat_chunk: "concat (chunk arr sz) = arr"
  by (simp add: chunk_def concat_chunk_from)

text \<open>
  C6. The items of a cycle are the rows of the queue whose retry count (NULL read as 0)
  is below \<open>MAX_RETRY\<close>, each as often as it is in the queue, in ascending order of
  \<open>datetime(created_at)\<close> and regardless of their task. The batches are consecutive
  pieces of that list, so every item of every batch is a queue row below the ceiling, and
  a row at the ceiling is in no batch. With the server reachable, the cycle runs exactly
  these batches.
\<close>

theorem cycle_items:
  "mset (getQueueItemsToProcess e w) =
     filter_mset (\<lambda>r. ifnull (retry_count r) 0 < MAX_RETRY e) (mset (sync_queue w))
   \<and> sorted (map (\<lambda>r. sqlite_datetime e (created_at_q r)) (getQueueItemsToProcess e w))
   \<and> concat (chunk (getQueueItemsToProcess e w) (SYNC_BATCH_SIZE e)) =
       getQueueItemsToProcess e w
   \<and> (\<forall>batch \<in> set (chunk (getQueueItemsToProcess e w) (SYNC_BATCH_SIZE e)).
        \<forall>it \<in> set batch. it \<in> set (sync_queue w) \<and> ifnull (retry_count it) 0 < MAX_RETRY e)
   \<and> (checkConnectivity e \<longrightarrow>
        sync e w = (if getQueueItemsToProcess e w = [] then (w, result0)
                    else sync_batches e (chunk (getQueueItemsToProcess e w) (SYNC_BATCH_SIZE e))
                           (w, result0)))"
proof -
  let ?items = "getQueueItemsToProcess e w"
  let ?batches = "chunk ?items (SYNC_BATCH_SIZE e)"
  have perm: "mset ?items =
      filter_mset (\<lambda>r. ifnull (retry_count r) 0 < MAX_RETRY e) (mset (sync_queue w))"
    by (simp add: getQueueItemsToProcess_def)
  have ordered: "sorted (map (\<lambda>r. sqlite_datetime e (created_at_q r)) ?items)"
    by (simp add: getQueueItemsToProcess_def)
  have pieces: "concat ?batches = ?items"
    by (rule concat_chunk)
  have members: "set ?items = {r \<in> set (sync_queue w). ifnull (retry_count r) 0 < MAX_RETRY e}"
    by (auto simp: getQueueItemsToProcess_def)
  have below: "\<forall>batch \<in> set ?batches.
      \<forall>it \<in> set batch. it \<in> set (sync_queue w) \<and> ifnull (retry_count it) 0 < MAX_RETRY e"
  proof (intro ballI)
    fix batch it
    assume "batch \<in> set ?batches" and "it \<in> set batch"
    then have "it \<in> set (concat ?batches)" by auto
    then have "it \<in> set ?items" by (simp only: pieces)
    then show "it \<in> set (sync_queue w) \<and> ifnull (retry_count it) 0 < MAX_RETRY e"
      using members by simp
  qed
  have run: "checkConnectivity e \<longrightarrow>
      sync e w = (if ?items = [] then (w, result0) else sync_batches e ?batches (w, result0))"
    by (simp add: sync_def Let_def)
  from perm ordered pieces below run show ?thesis by blast
qed

theorem cycle_items_witness:
  "checkConnectivity ex_env
   \<and> getQueueItemsToProcess ex_env ex_queue = [ex_older, ex_item]
   \<and> chunk (getQueueItemsToProcess ex_env ex_queue) (SYNC_BATCH_SIZE ex_env) =
       [ex_older, ex_item] # []
   \<and> ex_poisoned \<in> set (sync_queue ex_queue)
   \<and> \<not> ifnull (retry_count ex_poisoned) 0 < MAX_RETRY ex_env
   \<and> ex_poisoned \<notin>
        set (concat (chunk (getQueueItemsToProcess ex_env ex_queue) (SYNC_BATCH_SIZE ex_env)))
   \<and> sync ex_env ex_queue =
       sync_batches ex_env ([ex_older, ex_item] # []) (ex_queue, result0)"
proof -
  have online: "checkConnectivity ex_env"
    by (simp add: checkConnectivity_def ex_env_def)
  have items: "getQueueItemsToProcess ex_env ex_queue = [ex_older, ex_item]"
    by (simp add: getQueueItemsToProcess_def ifnull_def ex_defs)
  have batches: "chunk [ex_older, ex_item] (SYNC_BATCH_SIZE ex_env) = [ex_older, ex_item] # []"
    by (simp add: chunk_def chunk_from.simps ex_env_def)
  have poisoned: "ex_poisoned \<in> set (sync_queue ex_queue)"
    "\<not> ifnull (retry_count ex_poisoned) 0 < MAX_RETRY ex_env"
    by (simp_all add: ifnull_def ex_defs)
  from cycle_items [of ex_env ex_queue] online items batches poisoned
  show ?thesis by auto
qed

end
